theory Spec2Isabelle
  imports Main "HOL-Library.Sublist" "HOL-Library.Monad_Syntax"
begin

section \<open>Values exchanged with the platform\<close>

text \<open>
  What \<open>response.json()\<close> yields: Python's \<open>None\<close>, \<open>bool\<close>, \<open>int\<close>, \<open>str\<close>,
  \<open>list\<close> and \<open>dict\<close> (keys are strings). A dictionary is an association list in
  insertion order, read with \<open>map_of\<close>. JSON numbers are kept to the integers: no path
  of the service looks inside a number.
\<close>

datatype jvalue =
    JNull
  | JBool bool
  | JNum int
  | JStr string
  | JList "jvalue list"
  | JObj "(string \<times> jvalue) list"

text \<open>The name Python prints for \<open>type(v)\<close>.\<close>

fun type_name :: "jvalue \<Rightarrow> string" where
  "type_name JNull = ''NoneType''"
| "type_name (JBool _) = ''bool''"
| "type_name (JNum _) = ''int''"
| "type_name (JStr _) = ''str''"
| "type_name (JList _) = ''list''"
| "type_name (JObj _) = ''dict''"

text \<open>\<open>str(n)\<close> for a Python int: decimal digits, a minus sign when negative.\<close>

definition digit_char :: "nat \<Rightarrow> char" where
  "digit_char d = ''0123456789'' ! (d mod 10)"

fun str_nat :: "nat \<Rightarrow> string" where
  "str_nat n = (if n < 10 then [digit_char n] else str_nat (n div 10) @ [digit_char (n mod 10)])"

definition str_int :: "int \<Rightarrow> string" where
  "str_int i = (if i < 0 then CHR ''-'' # str_nat (nat (- i)) else str_nat (nat i))"

section \<open>The HTTP client as seen by the service\<close>

text \<open>
  An \<open>httpx.Response\<close>, reduced to what the service reads: \<open>status_code\<close>, the body
  text (\<open>response.text\<close>) and the outcome of \<open>response.json()\<close>, which either raises
  (\<open>Inl\<close> the exception's message) or returns the parsed body.
\<close>

record response =
  status_code :: int
  body_text :: string
  json :: "string + jvalue"

text \<open>
  What one pass through the \<open>try\<close> body of the retry loop raises: the three classes the
  loop has a handler for, and any other exception. Each carries its \<open>str(e)\<close>;
  \<open>HTTPStatusError\<close> also carries \<open>e.response\<close>.
\<close>

datatype httpx_error =
    TimeoutException string
  | ConnectError string
  | HTTPStatusError string response
  | OtherError string

fun str_httpx :: "httpx_error \<Rightarrow> string" where
  "str_httpx (TimeoutException m) = m"
| "str_httpx (ConnectError m) = m"
| "str_httpx (HTTPStatusError m r) = m"
| "str_httpx (OtherError m) = m"

text \<open>
  The client is the environment: \<open>client i\<close> is the outcome of the \<open>i\<close>-th execution of
  \<open>client.request(method, url, **kwargs)\<close> followed by \<open>response.raise_for_status()\<close>.
\<close>

type_synonym http_client = "nat \<Rightarrow> httpx_error + response"

text \<open>The keyword arguments the service passes on to \<open>client.request\<close>.\<close>

record kwargs =
  params :: "(string \<times> string) list option"
  json_payload :: "jvalue option"
  headers :: "(string \<times> string) list option"

definition no_kwargs :: kwargs where
  "no_kwargs = \<lparr>params = None, json_payload = None, headers = None\<rparr>"

text \<open>The observable effects of a call: requests sent and backoff sleeps, in order.\<close>

datatype event =
    Request string string kwargs
  | Sleep int

fun is_request :: "event \<Rightarrow> bool" where
  "is_request (Request _ _ _) = True"
| "is_request (Sleep _) = False"

text \<open>
  Exceptions that leave the service's functions: \<open>LangflowServiceError\<close>, or any other
  subclass of \<open>Exception\<close>, each with its message. Exceptions outside \<open>Exception\<close>
  (task cancellation, interpreter exit) are not modelled.
\<close>

datatype exn =
    LangflowServiceError string
  | OtherException string

fun str_exn :: "exn \<Rightarrow> string" where
  "str_exn (LangflowServiceError m) = m"
| "str_exn (OtherException m) = m"

section \<open>The retry primitive\<close>

text \<open>\<open>f"{last_exception}"\<close>: the variable starts as \<open>None\<close>.\<close>

fun str_last :: "httpx_error option \<Rightarrow> string" where
  "str_last None = ''None''"
| "str_last (Some e) = str_httpx e"

text \<open>The wait after a failed attempt: \<open>if attempt < max_retries: sleep(2 ** attempt)\<close>.\<close>

definition backoff :: "int \<Rightarrow> nat \<Rightarrow> event list" where
  "backoff max_retries attempt =
     (if int attempt < max_retries then [Sleep (2 ^ attempt)] else [])"

text \<open>
  The body of \<open>for attempt in range(max_retries + 1)\<close>, by recursion on the attempts
  still to run, carrying \<open>last_exception\<close>; the empty list is the code after the loop.
\<close>

fun retry_loop ::
  "http_client \<Rightarrow> string \<Rightarrow> string \<Rightarrow> kwargs \<Rightarrow> int \<Rightarrow> nat list \<Rightarrow> httpx_error option
     \<Rightarrow> (exn + response) \<times> event list" where
  "retry_loop client method url kw max_retries [] last_exception =
     (Inl (LangflowServiceError
        (''Failed to make request after '' @ str_int (max_retries + 1) @ '' attempts: ''
           @ str_last last_exception)), [])"
| "retry_loop client method url kw max_retries (attempt # rest) last_exception =
     (case client attempt of
        Inr resp \<Rightarrow> (Inr resp, [Request method url kw])
      | Inl (TimeoutException m) \<Rightarrow>
          (let (r, evs) = retry_loop client method url kw max_retries rest (Some (TimeoutException m))
           in (r, Request method url kw # backoff max_retries attempt @ evs))
      | Inl (ConnectError m) \<Rightarrow>
          (let (r, evs) = retry_loop client method url kw max_retries rest (Some (ConnectError m))
           in (r, Request method url kw # backoff max_retries attempt @ evs))
      | Inl (HTTPStatusError m e_response) \<Rightarrow>
          (if 400 \<le> status_code e_response \<and> status_code e_response < 500
           then (Inl (LangflowServiceError
                   (''Client error '' @ str_int (status_code e_response) @ '': ''
                      @ body_text e_response)), [Request method url kw])
           else
             (let (r, evs) = retry_loop client method url kw max_retries rest
                               (Some (HTTPStatusError m e_response))
              in (r, Request method url kw # backoff max_retries attempt @ evs)))
      | Inl (OtherError m) \<Rightarrow> (Inl (OtherException m), [Request method url kw]))"

definition make_request_with_retry ::
  "http_client \<Rightarrow> string \<Rightarrow> string \<Rightarrow> int \<Rightarrow> kwargs \<Rightarrow> (exn + response) \<times> event list" where
  "make_request_with_retry client method url max_retries kw =
     retry_loop client method url kw max_retries [0 ..< nat (max_retries + 1)] None"

section \<open>URL construction\<close>

text \<open>
  The service builds its URLs with \<open>urllib.parse.urljoin\<close>. That function belongs to
  the Python standard library, not to the service, so it is an argument of the functions
  that call it: it returns the joined URL, or raises (\<open>ValueError\<close> on a malformed
  host), which is \<open>Inl\<close> the exception's message. What is shown of the service holds for
  every such function.
\<close>

type_synonym url_joiner = "string \<Rightarrow> string \<Rightarrow> string + string"

section \<open>The service\<close>

text \<open>
  \<open>LangflowService.__init__\<close> strips trailing slashes from the base URL. The timeout and
  the connection pool configure the HTTP client, which is the environment here.
\<close>

record LangflowService =
  base_url :: string

definition rstrip_slash :: "string \<Rightarrow> string" where
  "rstrip_slash s = rev (dropWhile (\<lambda>c. c = CHR ''/'') (rev s))"

definition LangflowService_init :: "string \<Rightarrow> LangflowService" where
  "LangflowService_init base = \<lparr>base_url = rstrip_slash base\<rparr>"

subsection \<open>Flow records\<close>

record FlowResponse =
  id' :: string
  name :: string
  folder_id :: string
  is_component :: bool
  endpoint_name :: "string option"
  description :: string
  data :: "jvalue option"
  access_type :: string
  tags :: "string list"
  mcp_enabled :: bool
  action_name :: "string option"
  action_description :: "string option"

text \<open>
  \<open>FlowResponse(**flow_data)\<close> on a dictionary is pydantic's validation: it returns the
  parsed flow or raises \<open>ValidationError\<close> (\<open>Inl\<close> its message). The functions below
  take the validator as an argument, so what they are shown to do holds for whatever
  pydantic accepts.
\<close>

type_synonym validator = "(string \<times> jvalue) list \<Rightarrow> string + FlowResponse"

text \<open>
  Iterating a parsed value with \<open>for flow_data in flows_data\<close>: a list yields its
  elements, a dictionary its keys, a string its characters; anything else raises
  \<open>TypeError\<close>. The wording of a \<open>TypeError\<close> is the interpreter's.
\<close>

fun py_iter :: "jvalue \<Rightarrow> exn + jvalue list" where
  "py_iter (JList xs) = Inr xs"
| "py_iter (JObj kvs) = Inr (map (\<lambda>kv. JStr (fst kv)) kvs)"
| "py_iter (JStr s) = Inr (map (\<lambda>c. JStr [c]) s)"
| "py_iter v = Inl (OtherException (CHR 0x27 # type_name v @ CHR 0x27 # '' object is not iterable''))"

text \<open>
  The loop that validates each record: \<open>**flow_data\<close> needs a dictionary (otherwise
  \<open>TypeError\<close>, which the inner \<open>except ValidationError\<close> does not catch); a record the
  validator rejects is skipped.
\<close>

fun validate_flows :: "validator \<Rightarrow> jvalue list \<Rightarrow> FlowResponse list \<Rightarrow> exn + FlowResponse list" where
  "validate_flows validate [] flows = Inr flows"
| "validate_flows validate (flow_data # rest) flows =
     (case flow_data of
        JObj members \<Rightarrow>
          (case validate members of
             Inr flow \<Rightarrow> validate_flows validate rest (flows @ [flow])
           | Inl _ \<Rightarrow> validate_flows validate rest flows)
      | _ \<Rightarrow> Inl (OtherException
                (''services.langflow_service.FlowResponse() argument after ** must be a mapping, not ''
                   @ type_name flow_data)))"

text \<open>The shape check on the parsed body; \<open>f"{type(response_data)}"\<close> prints the class.\<close>

definition class_repr :: "jvalue \<Rightarrow> string" where
  "class_repr v = ''<class '' @ CHR 0x27 # type_name v @ CHR 0x27 # ''>''"

definition select_flows_data :: "jvalue \<Rightarrow> exn + jvalue" where
  "select_flows_data response_data =
     (case response_data of
        JObj members \<Rightarrow>
          (case map_of members ''flows'' of
             Some v \<Rightarrow> Inr v
           | None \<Rightarrow> Inl (LangflowServiceError
                        (''Unexpected response format: '' @ class_repr response_data)))
      | JList xs \<Rightarrow> Inr response_data
      | _ \<Rightarrow> Inl (LangflowServiceError
                (''Unexpected response format: '' @ class_repr response_data)))"

text \<open>The handler of \<open>get_flows\<close>: a service error is re-raised, anything else is wrapped.\<close>

fun wrap_fetch_error :: "exn \<Rightarrow> exn" where
  "wrap_fetch_error (LangflowServiceError m) = LangflowServiceError m"
| "wrap_fetch_error (OtherException m) = LangflowServiceError (''Failed to fetch flows: '' @ m)"

text \<open>
  \<open>get_flows\<close>: everything from the construction of the URL on is inside the \<open>try\<close>,
  so a failure of \<open>urljoin\<close> is handled like any other exception, before any request.
\<close>

definition get_flows ::
  "url_joiner \<Rightarrow> validator \<Rightarrow> http_client \<Rightarrow> LangflowService
     \<Rightarrow> (exn + FlowResponse list) \<times> event list" where
  "get_flows urljoin validate client self =
     (let (body, evs) =
        (case urljoin (base_url self) ''/api/v1/flows/'' of
           Inl m \<Rightarrow> (Inl (OtherException m), [])
         | Inr url \<Rightarrow>
             (let query = [(''header_flows'', ''true''), (''get_all'', ''true'')];
                  (r, evs) = make_request_with_retry client ''GET'' url 3
                               \<lparr>params = Some query, json_payload = None, headers = None\<rparr>
              in (case r of
                    Inl e \<Rightarrow> Inl e
                  | Inr response \<Rightarrow>
                      (case json response of
                         Inl m \<Rightarrow> Inl (OtherException m)
                       | Inr response_data \<Rightarrow>
                           (case select_flows_data response_data of
                              Inl e \<Rightarrow> Inl e
                            | Inr flows_data \<Rightarrow>
                                (case py_iter flows_data of
                                   Inl e \<Rightarrow> Inl e
                                 | Inr items \<Rightarrow> validate_flows validate items []))),
                  evs)))
      in (case body of Inl e \<Rightarrow> Inl (wrap_fetch_error e) | Inr flows \<Rightarrow> Inr flows, evs))"

subsection \<open>Flow execution\<close>

record FlowExecutionRequest =
  input_value :: string
  output_type :: string
  input_type :: string
  tweaks :: "(string \<times> jvalue) list"

text \<open>The constructor: a keyword that is not supplied takes the class's default.\<close>

definition FlowExecutionRequest_init ::
  "string \<Rightarrow> string option \<Rightarrow> string option \<Rightarrow> (string \<times> jvalue) list option
     \<Rightarrow> FlowExecutionRequest" where
  "FlowExecutionRequest_init iv ot it tw =
     \<lparr>input_value = iv,
      output_type = (case ot of None \<Rightarrow> ''chat'' | Some v \<Rightarrow> v),
      input_type = (case it of None \<Rightarrow> ''chat'' | Some v \<Rightarrow> v),
      tweaks = (case tw of None \<Rightarrow> [] | Some v \<Rightarrow> v)\<rparr>"

definition model_dump :: "FlowExecutionRequest \<Rightarrow> jvalue" where
  "model_dump r =
     JObj [(''input_value'', JStr (input_value r)),
           (''output_type'', JStr (output_type r)),
           (''input_type'', JStr (input_type r)),
           (''tweaks'', JObj (tweaks r))]"

record FlowExecutionResponse =
  success :: bool
  result :: jvalue
  error :: "string option"

text \<open>
  \<open>execute_flow\<close>: the \<open>try\<close> body, then the two handlers, which both return a
  response instead of raising.
\<close>

definition execute_flow ::
  "url_joiner \<Rightarrow> http_client \<Rightarrow> LangflowService \<Rightarrow> string \<Rightarrow> FlowExecutionRequest
     \<Rightarrow> (exn + FlowExecutionResponse) \<times> event list" where
  "execute_flow urljoin client self flow_id execution_request =
     (let (body, evs) =
        (case urljoin (base_url self) (''/api/v1/run/'' @ flow_id) of
           Inl m \<Rightarrow> (Inl (OtherException m), [])
         | Inr url \<Rightarrow>
             (let payload = model_dump execution_request;
                  (r, evs) = make_request_with_retry client ''POST'' url 3
                               \<lparr>params = None, json_payload = Some payload,
                                headers = Some [(''Content-Type'', ''application/json'')]\<rparr>
              in (case r of
                    Inl e \<Rightarrow> Inl e
                  | Inr response \<Rightarrow>
                      (case json response of
                         Inl m \<Rightarrow> Inl (OtherException m)
                       | Inr response_data \<Rightarrow>
                           Inr \<lparr>success = True, result = response_data, error = None\<rparr>),
                  evs)))
      in (case body of
            Inr execution_response \<Rightarrow> Inr execution_response
          | Inl (LangflowServiceError m) \<Rightarrow>
              Inr \<lparr>success = False, result = JNull, error = Some m\<rparr>
          | Inl (OtherException m) \<Rightarrow>
              Inr \<lparr>success = False, result = JNull,
                   error = Some (''Unexpected error during flow execution: '' @ m)\<rparr>,
          evs))"

section \<open>Classification of failures\<close>

text \<open>
  The failures after which the loop goes on to another attempt, read off its handlers:
  a timeout, a connection error, and an HTTP status error whose status is not in
  \<open>[400, 500)\<close>.
\<close>

definition retried :: "httpx_error \<Rightarrow> bool" where
  "retried e =
     (case e of
        TimeoutException _ \<Rightarrow> True
      | ConnectError _ \<Rightarrow> True
      | HTTPStatusError _ r \<Rightarrow> \<not> (400 \<le> status_code r \<and> status_code r < 500)
      | OtherError _ \<Rightarrow> False)"

text \<open>
  The retryable failures as the specification lists them: timeout, connection failure,
  HTTP status in \<open>[500, 600)\<close>.
\<close>

definition transient_failure :: "httpx_error \<Rightarrow> bool" where
  "transient_failure e =
     (case e of
        TimeoutException _ \<Rightarrow> True
      | ConnectError _ \<Rightarrow> True
      | HTTPStatusError _ r \<Rightarrow> 500 \<le> status_code r \<and> status_code r < 600
      | OtherError _ \<Rightarrow> False)"

section \<open>Concrete runs\<close>

definition ok_response :: response where
  "ok_response = \<lparr>status_code = 200, body_text = ''[]'', json = Inr (JList [])\<rparr>"

definition always_timeout :: http_client where
  "always_timeout = (\<lambda>i. Inl (TimeoutException ''Persistent timeout''))"

definition timeout_then_ok :: http_client where
  "timeout_then_ok = (\<lambda>i. if i = 0 then Inl (TimeoutException ''Timeout'') else Inr ok_response)"

definition bad_request_response :: response where
  "bad_request_response =
     \<lparr>status_code = 400, body_text = ''Bad Request'', json = Inl ''Expecting value''\<rparr>"

definition always_bad_request :: http_client where
  "always_bad_request = (\<lambda>i. Inl (HTTPStatusError ''Bad Request'' bad_request_response))"

definition redirect_response :: response where
  "redirect_response = \<lparr>status_code = 302, body_text = [], json = Inl ''Expecting value''\<rparr>"

definition redirect_then_ok :: http_client where
  "redirect_then_ok =
     (\<lambda>i. if i = 0 then Inl (HTTPStatusError ''Redirect response'' redirect_response)
          else Inr ok_response)"

text \<open>Whether the loop goes on after attempt \<open>i\<close> of a given client.\<close>

definition goes_on :: "http_client \<Rightarrow> nat \<Rightarrow> bool" where
  "goes_on client i = (case client i of Inl e \<Rightarrow> retried e | Inr _ \<Rightarrow> False)"

section \<open>The requests of the two operations\<close>

text \<open>
  What \<open>get_flows\<close> obtains before it reads the body: the failure of \<open>urljoin\<close>, or
  the outcome of its one call of the retry primitive.
\<close>

definition fetch_flows_response ::
  "url_joiner \<Rightarrow> http_client \<Rightarrow> LangflowService \<Rightarrow> exn + response" where
  "fetch_flows_response urljoin client self =
     (case urljoin (base_url self) ''/api/v1/flows/'' of
        Inl m \<Rightarrow> Inl (OtherException m)
      | Inr url \<Rightarrow>
          fst (make_request_with_retry client ''GET'' url 3
                 \<lparr>params = Some [(''header_flows'', ''true''), (''get_all'', ''true'')],
                  json_payload = None, headers = None\<rparr>))"

text \<open>The shapes of a parsed body that the specification speaks of.\<close>

fun is_list :: "jvalue \<Rightarrow> bool" where
  "is_list (JList _) = True"
| "is_list _ = False"

fun is_object :: "jvalue \<Rightarrow> bool" where
  "is_object (JObj _) = True"
| "is_object _ = False"

fun has_flows_key :: "jvalue \<Rightarrow> bool" where
  "has_flows_key (JObj members) = (map_of members ''flows'' \<noteq> None)"
| "has_flows_key _ = False"

fun is_record_list :: "jvalue \<Rightarrow> bool" where
  "is_record_list (JList xs) = list_all is_object xs"
| "is_record_list _ = False"


subsection \<open>A validator to run examples with\<close>

text \<open>
  It accepts the records whose members have exactly the JSON types that the fields of
  \<open>FlowResponse\<close> declare, and ignores other members.
\<close>

definition str_field :: "(string \<times> jvalue) list \<Rightarrow> string \<Rightarrow> string option" where
  "str_field d k = (case map_of d k of Some (JStr s) \<Rightarrow> Some s | _ \<Rightarrow> None)"

definition bool_field :: "(string \<times> jvalue) list \<Rightarrow> string \<Rightarrow> bool option" where
  "bool_field d k = (case map_of d k of Some (JBool b) \<Rightarrow> Some b | _ \<Rightarrow> None)"

definition opt_str_field :: "(string \<times> jvalue) list \<Rightarrow> string \<Rightarrow> string option option" where
  "opt_str_field d k =
     (case map_of d k of
        None \<Rightarrow> Some None
      | Some JNull \<Rightarrow> Some None
      | Some (JStr s) \<Rightarrow> Some (Some s)
      | _ \<Rightarrow> None)"

definition opt_any_field :: "(string \<times> jvalue) list \<Rightarrow> string \<Rightarrow> jvalue option" where
  "opt_any_field d k = (case map_of d k of None \<Rightarrow> None | Some JNull \<Rightarrow> None | Some v \<Rightarrow> Some v)"

fun str_items :: "jvalue list \<Rightarrow> string list option" where
  "str_items [] = Some []"
| "str_items (JStr s # xs) = (case str_items xs of Some ss \<Rightarrow> Some (s # ss) | None \<Rightarrow> None)"
| "str_items (_ # xs) = None"

definition str_list_field :: "(string \<times> jvalue) list \<Rightarrow> string \<Rightarrow> string list option" where
  "str_list_field d k = (case map_of d k of Some (JList xs) \<Rightarrow> str_items xs | _ \<Rightarrow> None)"

definition validate_strict :: validator where
  "validate_strict d =
     (case
        do {
          i \<leftarrow> str_field d ''id'';
          n \<leftarrow> str_field d ''name'';
          f \<leftarrow> str_field d ''folder_id'';
          c \<leftarrow> bool_field d ''is_component'';
          en \<leftarrow> opt_str_field d ''endpoint_name'';
          de \<leftarrow> str_field d ''description'';
          acc \<leftarrow> str_field d ''access_type'';
          tg \<leftarrow> str_list_field d ''tags'';
          mcp \<leftarrow> bool_field d ''mcp_enabled'';
          an \<leftarrow> opt_str_field d ''action_name'';
          ad \<leftarrow> opt_str_field d ''action_description'';
          Some \<lparr>id' = i, name = n, folder_id = f, is_component = c, endpoint_name = en,
                description = de, data = opt_any_field d ''data'', access_type = acc,
                tags = tg, mcp_enabled = mcp, action_name = an, action_description = ad\<rparr>
        }
      of Some flow \<Rightarrow> Inr flow
       | None \<Rightarrow> Inl ''validation error'')"

definition valid_flow :: "(string \<times> jvalue) list" where
  "valid_flow =
     [(''id'', JStr ''flow-1''), (''name'', JStr ''Valid Flow''), (''folder_id'', JStr ''folder-1''),
      (''is_component'', JBool False), (''description'', JStr ''Valid flow''),
      (''access_type'', JStr ''public''), (''tags'', JList []), (''mcp_enabled'', JBool True)]"



text \<open>A client whose first attempt returns status 200 with the given parsed body.\<close>

definition responds :: "jvalue \<Rightarrow> http_client" where
  "responds body = (\<lambda>i. Inr \<lparr>status_code = 200, body_text = [], json = Inr body\<rparr>)"

definition test_service :: LangflowService where
  "test_service = LangflowService_init ''http://test-langflow:7860''"

text \<open>
  The joiner of the runs below, which are against \<open>http://test-langflow:7860\<close>: for a
  base with no path and the absolute paths of the service, \<open>urljoin\<close> returns the base
  followed by the path.
\<close>

definition root_join :: url_joiner where
  "root_join base url = Inr (base @ url)"

text \<open>
  What \<open>execute_flow\<close> obtains before it reads the body: the failure of \<open>urljoin\<close>,
  or the outcome of its one call of the retry primitive.
\<close>

definition run_flow_response ::
  "url_joiner \<Rightarrow> http_client \<Rightarrow> LangflowService \<Rightarrow> string \<Rightarrow> FlowExecutionRequest
     \<Rightarrow> exn + response" where
  "run_flow_response urljoin client self flow_id execution_request =
     (case urljoin (base_url self) (''/api/v1/run/'' @ flow_id) of
        Inl m \<Rightarrow> Inl (OtherException m)
      | Inr url \<Rightarrow>
          fst (make_request_with_retry client ''POST'' url 3
                 \<lparr>params = None, json_payload = Some (model_dump execution_request),
                  headers = Some [(''Content-Type'', ''application/json'')]\<rparr>))"

definition test_request :: FlowExecutionRequest where
  "test_request = FlowExecutionRequest_init ''Test input'' None None None"

definition execution_body :: jvalue where
  "execution_body =
     JObj [(''result'', JStr ''Flow executed successfully''), (''output'', JStr ''Test output''),
           (''session_id'', JStr ''test-session-123'')]"

text \<open>The keyword arguments of the run request, written out.\<close>

definition run_kwargs :: "FlowExecutionRequest \<Rightarrow> kwargs" where
  "run_kwargs execution_request =
     \<lparr>params = None,
      json_payload = Some (JObj [(''input_value'', JStr (input_value execution_request)),
                                 (''output_type'', JStr (output_type execution_request)),
                                 (''input_type'', JStr (input_type execution_request)),
                                 (''tweaks'', JObj (tweaks execution_request))]),
      headers = Some [(''Content-Type'', ''application/json'')]\<rparr>"

definition prefixed_service :: LangflowService where
  "prefixed_service = LangflowService_init ''http://localhost:7860/langflow''"

section \<open>Properties of the retry primitive\<close>

lemma retry_loop_retried:
  "client a = Inl e \<Longrightarrow> retried e \<Longrightarrow>
   retry_loop client meth url kw n (a # rest) le =
     (fst (retry_loop client meth url kw n rest (Some e)),
      Request meth url kw # backoff n a @ snd (retry_loop client meth url kw n rest (Some e)))"
  by (cases e) (auto simp: retried_def split: prod.splits)

lemma retry_loop_final:
  "client a = Inl e \<Longrightarrow> \<not> retried e \<Longrightarrow>
   snd (retry_loop client meth url kw n (a # rest) le) = [Request meth url kw]"
  by (cases e) (auto simp: retried_def split: prod.splits)

lemma retry_loop_response:
  "client a = Inr resp \<Longrightarrow>
   retry_loop client meth url kw n (a # rest) le = (Inr resp, [Request meth url kw])"
  by simp

lemma retry_first_response:
  "client 0 = Inr resp \<Longrightarrow>
   make_request_with_retry client meth url 3 kw = (Inr resp, [Request meth url kw])"
  by (simp add: make_request_with_retry_def upt_conv_Cons retry_loop.simps)

declare retry_loop.simps(2) [simp del]

lemma transient_retried: "transient_failure e \<Longrightarrow> retried e"
  by (cases e) (auto simp: retried_def transient_failure_def)

lemma retry_loop_all_retried:
  "\<forall>i \<in> set as. \<exists>e. client i = Inl e \<and> retried e \<Longrightarrow>
   fst (retry_loop client meth url kw n as le) =
     Inl (LangflowServiceError (''Failed to make request after '' @ str_int (n + 1) @ '' attempts: ''
        @ str_last (if as = [] then le else (case client (last as) of Inl e \<Rightarrow> Some e | Inr _ \<Rightarrow> None))))
   \<and> length (filter is_request (snd (retry_loop client meth url kw n as le))) = length as"
proof (induction as arbitrary: le)
  case Nil
  then show ?case by simp
next
  case (Cons a as)
  then obtain e where e: "client a = Inl e" "retried e" by auto
  have IH: "\<forall>i \<in> set as. \<exists>e. client i = Inl e \<and> retried e" using Cons.prems by simp
  note ih = Cons.IH[OF IH, of "Some e"]
  show ?case
    using ih e by (simp add: retry_loop_retried[of client a e] backoff_def)
qed

lemma retry_loop_trace:
  "N = nat (n + 1) \<Longrightarrow> k < N \<Longrightarrow>
   \<exists>m. k \<le> m \<and> m < N \<and>
     snd (retry_loop client meth url kw n [k ..< N] le) =
       concat (map (\<lambda>attempt. [Request meth url kw, Sleep (2 ^ attempt)]) [k ..< m])
         @ [Request meth url kw]"
proof (induction "N - k" arbitrary: k le)
  case 0
  then show ?case by simp
next
  case (Suc d)
  have split: "[k ..< N] = k # [Suc k ..< N]" using Suc.prems by (simp add: upt_conv_Cons)
  show ?case
  proof (cases "client k")
    case (Inr resp)
    then show ?thesis unfolding split by (intro exI[of _ k]) (use Suc.prems in \<open>simp add: retry_loop_response\<close>)
  next
    case (Inl e)
    show ?thesis
    proof (cases "retried e")
      case False
      then show ?thesis unfolding split
        by (intro exI[of _ k]) (use Suc.prems Inl in \<open>simp add: retry_loop_final\<close>)
    next
      case True
      show ?thesis
      proof (cases "Suc k < N")
        case False
        then have emp: "[Suc k ..< N] = []" by simp
        have b: "backoff n k = []" using False Suc.prems by (simp add: backoff_def)
        have "snd (retry_loop client meth url kw n [k] le) = [Request meth url kw]"
          using retry_loop_retried[of client k e meth url kw n "[]" le] Inl True b by simp
        then show ?thesis unfolding split emp
          by (intro exI[of _ k]) (use Suc.prems in simp)
      next
        case lt: True
        have d: "d = N - Suc k" using Suc.hyps by simp
        from Suc.hyps(1)[OF d Suc.prems(1) lt, of "Some e"]
        obtain m where m: "Suc k \<le> m" "m < N"
          "snd (retry_loop client meth url kw n [Suc k ..< N] (Some e)) =
             concat (map (\<lambda>attempt. [Request meth url kw, Sleep (2 ^ attempt)]) [Suc k ..< m])
               @ [Request meth url kw]" by blast
        have b: "backoff n k = [Sleep (2 ^ k)]" using lt Suc.prems by (simp add: backoff_def)
        have km: "[k ..< m] = k # [Suc k ..< m]" using m by (simp add: upt_conv_Cons)
        show ?thesis unfolding split
          by (intro exI[of _ m]) (use m Inl True b km in \<open>simp add: retry_loop_retried[of client k e]\<close>)
      qed
    qed
  qed
qed

text \<open>
  Claim C4. With \<open>max_retries \<ge> 0\<close>, the effects of a call are some number \<open>m + 1\<close> of
  attempts (\<open>m \<le> max_retries\<close>), and after the attempt with index \<open>attempt < m\<close>, before
  the next one, exactly one sleep of \<open>2 ^ attempt\<close>: no other wait, none after the last
  attempt, no jitter and no cap. In particular, when at least one retry is allowed, a
  timeout on the first attempt followed by a success gives the response after exactly two
  requests and one sleep of 1.
\<close>

theorem backoff_schedule:
  "(0 \<le> max_retries \<longrightarrow>
      (\<exists>m \<le> nat max_retries.
         snd (make_request_with_retry client meth url max_retries kw) =
           concat (map (\<lambda>attempt. [Request meth url kw, Sleep (2 ^ attempt)]) [0 ..< m])
             @ [Request meth url kw]))
   \<and> (1 \<le> max_retries \<and> client 0 = Inl (TimeoutException msg) \<and> client 1 = Inr resp \<longrightarrow>
        make_request_with_retry client meth url max_retries kw =
          (Inr resp, [Request meth url kw, Sleep 1, Request meth url kw]))"
proof (intro conjI impI)
  assume n: "0 \<le> max_retries"
  then have "0 < nat (max_retries + 1)" by simp
  from retry_loop_trace[OF refl this, of client meth url kw None]
  obtain m where "m < nat (max_retries + 1)"
    "snd (retry_loop client meth url kw max_retries [0 ..< nat (max_retries + 1)] None) =
       concat (map (\<lambda>attempt. [Request meth url kw, Sleep (2 ^ attempt)]) [0 ..< m])
         @ [Request meth url kw]" by blast
  then show "\<exists>m \<le> nat max_retries.
         snd (make_request_with_retry client meth url max_retries kw) =
           concat (map (\<lambda>attempt. [Request meth url kw, Sleep (2 ^ attempt)]) [0 ..< m])
             @ [Request meth url kw]"
    unfolding make_request_with_retry_def using n by (intro exI[of _ m]) simp
next
  assume a: "1 \<le> max_retries \<and> client 0 = Inl (TimeoutException msg) \<and> client 1 = Inr resp"
  then have "[0 ..< nat (max_retries + 1)] = 0 # Suc 0 # [Suc (Suc 0) ..< nat (max_retries + 1)]"
    by (simp add: upt_conv_Cons)
  then show "make_request_with_retry client meth url max_retries kw =
          (Inr resp, [Request meth url kw, Sleep 1, Request meth url kw])"
    unfolding make_request_with_retry_def using a by (simp add: backoff_def retry_loop.simps)
qed

text \<open>The run of C4 on a client that times out once, with the default \<open>max_retries = 3\<close>.\<close>

theorem backoff_schedule_witness:
  "(1::int) \<le> 3 \<and> timeout_then_ok 0 = Inl (TimeoutException ''Timeout'')
   \<and> timeout_then_ok 1 = Inr ok_response
   \<and> make_request_with_retry timeout_then_ok ''GET'' ''http://test.com'' 3 no_kwargs =
     (Inr ok_response,
      [Request ''GET'' ''http://test.com'' no_kwargs, Sleep 1,
       Request ''GET'' ''http://test.com'' no_kwargs])"
proof -
  have h: "(1::int) \<le> 3 \<and> timeout_then_ok 0 = Inl (TimeoutException ''Timeout'')
             \<and> timeout_then_ok 1 = Inr ok_response"
    by (simp add: timeout_then_ok_def)
  from backoff_schedule[where max_retries = 3 and client = timeout_then_ok
      and msg = "''Timeout''" and resp = ok_response and meth = "''GET''"
      and url = "''http://test.com''" and kw = no_kwargs] h
  show ?thesis by blast
qed

text \<open>
  Claim C2. With \<open>max_retries = n \<ge> 0\<close>, when each of the attempts \<open>0..n\<close> fails with a
  timeout, a connection error or an HTTP status in \<open>[500, 600)\<close>, the call sends exactly
  \<open>n + 1\<close> requests and raises \<open>LangflowServiceError\<close> with the message
  \<open>Failed to make request after <n + 1> attempts: <last failure>\<close>; for \<open>n = 3\<close> the
  message contains \<open>4 attempts\<close>.
\<close>

theorem retries_exhausted:
  assumes "0 \<le> max_retries"
    and "\<forall>i \<le> nat max_retries. \<exists>e. client i = Inl e \<and> transient_failure e"
    and "client (nat max_retries) = Inl e_last"
  shows "fst (make_request_with_retry client meth url max_retries kw) =
           Inl (LangflowServiceError (''Failed to make request after '' @ str_int (max_retries + 1)
                  @ '' attempts: '' @ str_httpx e_last))
         \<and> length (filter is_request (snd (make_request_with_retry client meth url max_retries kw)))
             = nat max_retries + 1
         \<and> (max_retries = 3 \<longrightarrow>
              (\<exists>msg. fst (make_request_with_retry client meth url max_retries kw)
                       = Inl (LangflowServiceError msg) \<and> sublist ''4 attempts'' msg))"
proof -
  let ?as = "[0 ..< nat (max_retries + 1)]"
  have ne: "?as \<noteq> []" and la: "last ?as = nat max_retries" using assms(1) by (auto simp: nat_add_distrib)
  have all: "\<forall>i \<in> set ?as. \<exists>e. client i = Inl e \<and> retried e"
    using assms(1,2) transient_retried by (fastforce simp: nat_add_distrib)
  note r = retry_loop_all_retried[OF all, of meth url kw max_retries None]
  have 1: "fst (make_request_with_retry client meth url max_retries kw) =
           Inl (LangflowServiceError (''Failed to make request after '' @ str_int (max_retries + 1)
                  @ '' attempts: '' @ str_httpx e_last))"
    unfolding make_request_with_retry_def using r ne la assms(3) by simp
  have 2: "length (filter is_request (snd (make_request_with_retry client meth url max_retries kw)))
             = nat max_retries + 1"
    unfolding make_request_with_retry_def using r assms(1) by (simp add: nat_add_distrib)
  have s4: "str_int 4 = ''4''" by (simp add: str_int_def digit_char_def)
  have 3: "max_retries = 3 \<longrightarrow>
              (\<exists>msg. fst (make_request_with_retry client meth url max_retries kw)
                       = Inl (LangflowServiceError msg) \<and> sublist ''4 attempts'' msg)"
  proof
    assume m3: "max_retries = 3"
    have "sublist ''4 attempts'' (''Failed to make request after '' @ ''4 attempts'' @ '': '' @ str_httpx e_last)"
      unfolding sublist_def by blast
    then show "\<exists>msg. fst (make_request_with_retry client meth url max_retries kw)
                       = Inl (LangflowServiceError msg) \<and> sublist ''4 attempts'' msg"
      unfolding 1 using m3 s4 by simp
  qed
  from 1 2 3 show ?thesis by blast
qed

text \<open>The run of C2 on a client that always times out, with \<open>max_retries = 3\<close>.\<close>

theorem retries_exhausted_witness:
  "fst (make_request_with_retry always_timeout ''GET'' ''http://test.com'' 3 no_kwargs) =
     Inl (LangflowServiceError ''Failed to make request after 4 attempts: Persistent timeout'')
   \<and> length (filter is_request
        (snd (make_request_with_retry always_timeout ''GET'' ''http://test.com'' 3 no_kwargs))) = 4"
  using retries_exhausted[where max_retries = 3 and client = always_timeout
      and e_last = "TimeoutException ''Persistent timeout''" and meth = "''GET''"
      and url = "''http://test.com''" and kw = no_kwargs]
  by (simp add: always_timeout_def transient_failure_def str_int_def digit_char_def)

lemma takeWhile_length_iff:
  "j < length xs \<Longrightarrow> (j < length (takeWhile P xs)) = (\<forall>i\<le>j. P (xs ! i))"
proof (induction xs arbitrary: j)
  case Nil
  then show ?case by simp
next
  case (Cons x xs)
  show ?case
  proof (cases j)
    case 0
    then show ?thesis by simp
  next
    case (Suc j')
    then have "j' < length xs" using Cons.prems by simp
    from Cons.IH[OF this, of ] have ih: "(j' < length (takeWhile P xs)) = (\<forall>i\<le>j'. P (xs ! i))" .
    have "(\<forall>i\<le>Suc j'. P ((x # xs) ! i)) = (P x \<and> (\<forall>i\<le>j'. P (xs ! i)))"
      by (auto simp: nth_Cons split: nat.splits)
    then show ?thesis using Suc ih by simp
  qed
qed

lemma retry_loop_count:
  "length (filter is_request (snd (retry_loop client meth url kw n as le))) =
     min (length as) (Suc (length (takeWhile (goes_on client) as)))"
proof (induction as arbitrary: le)
  case Nil
  then show ?case by simp
next
  case (Cons a as)
  show ?case
  proof (cases "client a")
    case (Inr resp)
    then show ?thesis by (simp add: retry_loop_response goes_on_def)
  next
    case (Inl e)
    show ?thesis
    proof (cases "retried e")
      case True
      then have g: "goes_on client a" using Inl by (simp add: goes_on_def)
      show ?thesis
        using Cons.IH[of "Some e"] g
        by (simp add: retry_loop_retried[of client a e, OF Inl True] backoff_def)
    next
      case False
      then have g: "\<not> goes_on client a" using Inl by (simp add: goes_on_def)
      show ?thesis using g retry_loop_final[of client a e, OF Inl False] by simp
    qed
  qed
qed

lemma goes_on_iff: "goes_on client i = (\<exists>e. client i = Inl e \<and> retried e)"
  by (cases "client i") (auto simp: goes_on_def)

text \<open>
  Claim C3, as the code has it. A status error in \<open>[400, 500)\<close> on the first attempt ends
  the call after that one request, with no sleep, raising \<open>LangflowServiceError\<close> with
  \<open>Client error <status>: <body text>\<close>. While retries remain, attempt \<open>j + 1\<close> is
  followed by another request exactly when each attempt up to it failed with a timeout, a
  connection error or a status error whose status is outside \<open>[400, 500)\<close>.
\<close>

theorem client_error_not_retried:
  "(0 \<le> max_retries \<and> client 0 = Inl (HTTPStatusError m r)
      \<and> 400 \<le> status_code r \<and> status_code r < 500 \<longrightarrow>
      make_request_with_retry client meth url max_retries kw =
        (Inl (LangflowServiceError
                (''Client error '' @ str_int (status_code r) @ '': '' @ body_text r)),
         [Request meth url kw]))
   \<and> (\<forall>j. int j < max_retries \<longrightarrow>
        (j + 2 \<le> length (filter is_request
                     (snd (make_request_with_retry client meth url max_retries kw))))
          = (\<forall>i\<le>j. \<exists>e. client i = Inl e \<and> retried e))"
proof (intro conjI impI allI)
  assume a: "0 \<le> max_retries \<and> client 0 = Inl (HTTPStatusError m r)
      \<and> 400 \<le> status_code r \<and> status_code r < 500"
  then have "[0 ..< nat (max_retries + 1)] = 0 # [Suc 0 ..< nat (max_retries + 1)]"
    by (simp add: upt_conv_Cons)
  then show "make_request_with_retry client meth url max_retries kw =
        (Inl (LangflowServiceError
                (''Client error '' @ str_int (status_code r) @ '': '' @ body_text r)),
         [Request meth url kw])"
    unfolding make_request_with_retry_def using a by (simp add: retry_loop.simps)
next
  fix j
  assume j: "int j < max_retries"
  let ?N = "nat (max_retries + 1)"
  have jN: "j + 2 \<le> ?N" using j by linarith
  have len: "j < length [0 ..< ?N]" using jN by simp
  have "(j + 2 \<le> length (filter is_request
                     (snd (make_request_with_retry client meth url max_retries kw))))
        = (j < length (takeWhile (goes_on client) [0 ..< ?N]))"
    unfolding make_request_with_retry_def retry_loop_count using jN by auto
  also have "\<dots> = (\<forall>i\<le>j. goes_on client ([0 ..< ?N] ! i))"
    by (rule takeWhile_length_iff[OF len])
  also have "\<dots> = (\<forall>i\<le>j. goes_on client i)"
    using jN by auto
  finally show "(j + 2 \<le> length (filter is_request
                     (snd (make_request_with_retry client meth url max_retries kw))))
          = (\<forall>i\<le>j. \<exists>e. client i = Inl e \<and> retried e)"
    by (simp add: goes_on_iff)
qed

text \<open>A run that ends on status 400, and one where the first failure is followed by a retry.\<close>

theorem client_error_not_retried_witness:
  "make_request_with_retry always_bad_request ''GET'' ''http://test.com'' 3 no_kwargs =
     (Inl (LangflowServiceError ''Client error 400: Bad Request''),
      [Request ''GET'' ''http://test.com'' no_kwargs])
   \<and> 2 \<le> length (filter is_request
              (snd (make_request_with_retry redirect_then_ok ''GET'' ''http://test.com'' 3 no_kwargs)))"
proof -
  have a: "make_request_with_retry always_bad_request ''GET'' ''http://test.com'' 3 no_kwargs =
     (Inl (LangflowServiceError ''Client error 400: Bad Request''),
      [Request ''GET'' ''http://test.com'' no_kwargs])"
    using client_error_not_retried[where max_retries = 3 and client = always_bad_request
        and m = "''Bad Request''" and r = bad_request_response and meth = "''GET''"
        and url = "''http://test.com''" and kw = no_kwargs]
    by (simp add: always_bad_request_def bad_request_response_def str_int_def digit_char_def)
  have "\<forall>j. int j < 3 \<longrightarrow>
        (j + 2 \<le> length (filter is_request
                     (snd (make_request_with_retry redirect_then_ok ''GET'' ''http://test.com'' 3 no_kwargs))))
          = (\<forall>i\<le>j. \<exists>e. redirect_then_ok i = Inl e \<and> retried e)"
    using client_error_not_retried[where max_retries = 3 and client = redirect_then_ok
        and meth = "''GET''" and url = "''http://test.com''" and kw = no_kwargs]
    by blast
  from this[rule_format, of 0]
  have b: "2 \<le> length (filter is_request
              (snd (make_request_with_retry redirect_then_ok ''GET'' ''http://test.com'' 3 no_kwargs)))"
    by (simp add: redirect_then_ok_def redirect_response_def retried_def)
  from a b show ?thesis by blast
qed

text \<open>
  Claim C3 as stated fails: a status error with status 302, which is not in
  \<open>[500, 600)\<close>, is followed by a sleep and a second request.
\<close>

theorem redirect_status_is_retried:
  "\<not> transient_failure (HTTPStatusError ''Redirect response'' redirect_response)
   \<and> redirect_then_ok 0 = Inl (HTTPStatusError ''Redirect response'' redirect_response)
   \<and> make_request_with_retry redirect_then_ok ''GET'' ''http://test.com'' 3 no_kwargs =
       (Inr ok_response,
        [Request ''GET'' ''http://test.com'' no_kwargs, Sleep 1,
         Request ''GET'' ''http://test.com'' no_kwargs])"
  by (simp add: transient_failure_def redirect_then_ok_def redirect_response_def
      make_request_with_retry_def retry_loop.simps backoff_def upt_conv_Cons)

section \<open>Properties of the flow listing\<close>


lemma get_flows_result:
  "fst (get_flows urljoin validate client self) =
     (case fetch_flows_response urljoin client self of
        Inl e \<Rightarrow> Inl (wrap_fetch_error e)
      | Inr response \<Rightarrow>
          (case json response of
             Inl m \<Rightarrow> Inl (wrap_fetch_error (OtherException m))
           | Inr response_data \<Rightarrow>
               (case select_flows_data response_data of
                  Inl e \<Rightarrow> Inl (wrap_fetch_error e)
                | Inr flows_data \<Rightarrow>
                    (case py_iter flows_data of
                       Inl e \<Rightarrow> Inl (wrap_fetch_error e)
                     | Inr items \<Rightarrow>
                         (case validate_flows validate items [] of
                            Inl e \<Rightarrow> Inl (wrap_fetch_error e)
                          | Inr flows \<Rightarrow> Inr flows)))))"
  unfolding get_flows_def fetch_flows_response_def Let_def
  by (simp split: prod.splits sum.splits)

lemma validate_flows_non_object:
  "\<not> list_all is_object items \<Longrightarrow> \<exists>m. validate_flows validate items flows = Inl (OtherException m)"
proof (induction items arbitrary: flows)
  case Nil
  then show ?case by simp
next
  case (Cons x items)
  show ?case
  proof (cases x)
    case (JObj members)
    then have "\<not> list_all is_object items" using Cons.prems by simp
    from Cons.IH[OF this] show ?thesis using JObj by (cases "validate members") simp_all
  qed simp_all
qed

lemma select_flows_data_wrapper:
  "map_of members ''flows'' = Some v \<Longrightarrow> select_flows_data (JObj members) = Inr v"
  by (simp add: select_flows_data_def)

lemma select_flows_data_list: "select_flows_data (JList xs) = Inr (JList xs)"
  by (simp add: select_flows_data_def)

lemma select_flows_data_other:
  "\<not> is_list body \<Longrightarrow> \<not> has_flows_key body \<Longrightarrow>
   select_flows_data body =
     Inl (LangflowServiceError (''Unexpected response format: '' @ class_repr body))"
  by (cases body) (auto simp: select_flows_data_def)

lemma responds_fetch:
  "fetch_flows_response root_join (responds body) self =
     Inr \<lparr>status_code = 200, body_text = [], json = Inr body\<rparr>"
  by (simp add: fetch_flows_response_def root_join_def retry_first_response responds_def)




text \<open>
  Claim C6. For every list \<open>L\<close>, \<open>get_flows\<close> gives the same outcome when the body is
  the bare list \<open>L\<close> and when it is an object that holds \<open>L\<close> under the key \<open>flows\<close>.
\<close>

theorem get_flows_wrapper_same:
  assumes "fetch_flows_response urljoin client1 self = Inr resp1"
    and "json resp1 = Inr (JList L)"
    and "fetch_flows_response urljoin client2 self = Inr resp2"
    and "json resp2 = Inr (JObj members)"
    and "map_of members ''flows'' = Some (JList L)"
  shows "fst (get_flows urljoin validate client1 self) = fst (get_flows urljoin validate client2 self)"
  using assms
  by (simp add: get_flows_result select_flows_data_list select_flows_data_wrapper)

text \<open>The two runs of C6 on a list of one valid record.\<close>

theorem get_flows_wrapper_same_witness:
  "fst (get_flows root_join validate_strict (responds (JList [JObj valid_flow])) test_service) =
   fst (get_flows root_join validate_strict (responds (JObj [(''flows'', JList [JObj valid_flow])]))
          test_service)"
  using get_flows_wrapper_same[OF responds_fetch _ responds_fetch,
      where L = "[JObj valid_flow]" and members = "[(''flows'', JList [JObj valid_flow])]"
        and validate = validate_strict and self = test_service]
  by simp

text \<open>
  Claim C8. When the parsed body is neither a list nor an object with a \<open>flows\<close> key,
  \<open>get_flows\<close> raises \<open>LangflowServiceError\<close> with the unexpected-format message; no
  record is validated and nothing is returned.
\<close>

theorem get_flows_unexpected_shape:
  assumes "fetch_flows_response urljoin client self = Inr resp"
    and "json resp = Inr body"
    and "\<not> is_list body"
    and "\<not> has_flows_key body"
  shows "fst (get_flows urljoin validate client self) =
           Inl (LangflowServiceError (''Unexpected response format: '' @ class_repr body))"
  using assms by (simp add: get_flows_result select_flows_data_other)

text \<open>The run of C8 on a body that is a number.\<close>

theorem get_flows_unexpected_shape_witness:
  "fst (get_flows root_join validate_strict (responds (JNum 3)) test_service) =
     Inl (LangflowServiceError (''Unexpected response format: '' @ class_repr (JNum 3)))"
  by (rule get_flows_unexpected_shape[OF responds_fetch]) simp_all

text \<open>
  Claim C10, as the code has it. When the body is an object whose \<open>flows\<close> member \<open>v\<close>
  is not a list of records, the unexpected-format error is not raised: for an empty string
  or an empty object the loop runs zero times and \<open>get_flows\<close> returns the empty list;
  for any other \<open>v\<close> the iteration or the unpacking of an element fails and the failure
  is raised as \<open>LangflowServiceError\<close> with a message that begins
  \<open>Failed to fetch flows: \<close>.
\<close>

theorem get_flows_flows_not_list:
  assumes "fetch_flows_response urljoin client self = Inr resp"
    and "json resp = Inr (JObj members)"
    and "map_of members ''flows'' = Some v"
    and "\<not> is_record_list v"
  shows "(v = JStr [] \<or> v = JObj [] \<longrightarrow> fst (get_flows urljoin validate client self) = Inr [])
       \<and> (v \<noteq> JStr [] \<and> v \<noteq> JObj [] \<longrightarrow>
            (\<exists>m. fst (get_flows urljoin validate client self) =
                   Inl (LangflowServiceError (''Failed to fetch flows: '' @ m))))"
proof -
  have r: "fst (get_flows urljoin validate client self) =
     (case py_iter v of
        Inl e \<Rightarrow> Inl (wrap_fetch_error e)
      | Inr items \<Rightarrow>
          (case validate_flows validate items [] of
             Inl e \<Rightarrow> Inl (wrap_fetch_error e)
           | Inr flows \<Rightarrow> Inr flows))"
    using assms(1-3) by (simp add: get_flows_result select_flows_data_wrapper)
  show ?thesis
  proof (cases v)
    case (JList xs)
    then have "\<not> list_all is_object xs" using assms(4) by simp
    from validate_flows_non_object[OF this, of validate "[]"]
    show ?thesis using JList r by auto
  next
    case (JStr s)
    show ?thesis
    proof (cases s)
      case Nil
      then show ?thesis using JStr r by simp
    next
      case (Cons c cs)
      then show ?thesis using JStr r by simp
    qed
  next
    case (JObj kvs)
    show ?thesis
    proof (cases kvs)
      case Nil
      then show ?thesis using JObj r by simp
    next
      case (Cons kv rest)
      then show ?thesis using JObj r by simp
    qed
  qed (use r in simp_all)
qed

text \<open>The run of C10 on \<open>{"flows": 3}\<close>.\<close>

theorem get_flows_flows_not_list_witness:
  "\<exists>m. fst (get_flows root_join validate_strict (responds (JObj [(''flows'', JNum 3)])) test_service) =
         Inl (LangflowServiceError (''Failed to fetch flows: '' @ m))"
  using get_flows_flows_not_list[OF responds_fetch, where v = "JNum 3"
      and members = "[(''flows'', JNum 3)]" and validate = validate_strict and self = test_service]
  by simp

text \<open>
  Claim C10 as stated fails: on \<open>{"flows": ""}\<close>, whose \<open>flows\<close> member is not a list,
  \<open>get_flows\<close> raises nothing and returns the empty list.
\<close>

theorem empty_flows_value_is_accepted:
  "\<not> is_record_list (JStr []) \<and> \<not> is_list (JStr [])
   \<and> fst (get_flows root_join validate_strict (responds (JObj [(''flows'', JStr [])])) test_service) = Inr []"
  by (simp add: get_flows_result responds_fetch select_flows_data_def)

section \<open>Properties of the flow execution\<close>

lemma retry_loop_error_nonempty:
  "fst (retry_loop client meth url kw n as le) = Inl (LangflowServiceError msg) \<Longrightarrow> msg \<noteq> []"
proof (induction as arbitrary: le)
  case Nil
  then show ?case by auto
next
  case (Cons a as)
  show ?case
  proof (cases "client a")
    case (Inr resp)
    then show ?thesis using Cons.prems by (simp add: retry_loop_response)
  next
    case (Inl e)
    show ?thesis
    proof (cases "retried e")
      case True
      then show ?thesis
        using Cons.prems Cons.IH[of "Some e"] by (simp add: retry_loop_retried[of client a e, OF Inl True])
    next
      case False
      then show ?thesis using Cons.prems Inl
        by (cases e) (auto simp: retry_loop.simps retried_def split: if_splits)
    qed
  qed
qed

lemma execute_flow_result:
  "fst (execute_flow urljoin client self flow_id req) =
     (case run_flow_response urljoin client self flow_id req of
        Inl (LangflowServiceError m) \<Rightarrow> Inr \<lparr>success = False, result = JNull, error = Some m\<rparr>
      | Inl (OtherException m) \<Rightarrow>
          Inr \<lparr>success = False, result = JNull,
               error = Some (''Unexpected error during flow execution: '' @ m)\<rparr>
      | Inr response \<Rightarrow>
          (case json response of
             Inl m \<Rightarrow>
               Inr \<lparr>success = False, result = JNull,
                    error = Some (''Unexpected error during flow execution: '' @ m)\<rparr>
           | Inr response_data \<Rightarrow> Inr \<lparr>success = True, result = response_data, error = None\<rparr>))"
  unfolding execute_flow_def run_flow_response_def Let_def
  by (simp split: prod.splits sum.splits exn.splits)

lemma run_flow_error_nonempty:
  assumes "run_flow_response urljoin client self flow_id req = Inl (LangflowServiceError msg)"
  shows "msg \<noteq> []"
proof (cases "urljoin (base_url self) (''/api/v1/run/'' @ flow_id)")
  case (Inl m)
  then show ?thesis using assms by (simp add: run_flow_response_def)
next
  case (Inr url)
  then have "fst (retry_loop client ''POST'' url
                \<lparr>params = None, json_payload = Some (model_dump req),
                   headers = Some [(''Content-Type'', ''application/json'')]\<rparr>
                3 [0 ..< nat (3 + 1)] None) = Inl (LangflowServiceError msg)"
    using assms by (simp add: run_flow_response_def make_request_with_retry_def)
  then show ?thesis by (rule retry_loop_error_nonempty)
qed

lemma responds_run:
  "run_flow_response root_join (responds body) self flow_id req =
     Inr \<lparr>status_code = 200, body_text = [], json = Inr body\<rparr>"
  by (simp add: run_flow_response_def root_join_def retry_first_response responds_def)

lemma always_timeout_run:
  "run_flow_response root_join always_timeout self flow_id req =
     Inl (LangflowServiceError ''Failed to make request after 4 attempts: Persistent timeout'')"
  by (simp add: run_flow_response_def root_join_def make_request_with_retry_def always_timeout_def
      upt_conv_Cons retry_loop.simps str_int_def digit_char_def)

text \<open>
  Claim C1. \<open>execute_flow\<close> never raises. When its request fails, with a service error
  of the retry primitive or with any other exception (a failure to build the URL
  included), it returns a response with \<open>success = False\<close>, \<open>result = None\<close> and a
  non-empty error message that contains the failure's message; likewise when reading the
  JSON body of the response raises.
\<close>

theorem execute_flow_failure_as_data:
  "(\<exists>r. fst (execute_flow urljoin client self flow_id req) = Inr r)
   \<and> (run_flow_response urljoin client self flow_id req = Inl e \<longrightarrow>
        (\<exists>msg. fst (execute_flow urljoin client self flow_id req) =
                  Inr \<lparr>success = False, result = JNull, error = Some msg\<rparr>
               \<and> msg \<noteq> [] \<and> sublist (str_exn e) msg))
   \<and> (run_flow_response urljoin client self flow_id req = Inr resp \<and> json resp = Inl m \<longrightarrow>
        fst (execute_flow urljoin client self flow_id req) =
          Inr \<lparr>success = False, result = JNull,
               error = Some (''Unexpected error during flow execution: '' @ m)\<rparr>)"
proof (intro conjI impI)
  show "\<exists>r. fst (execute_flow urljoin client self flow_id req) = Inr r"
    by (simp add: execute_flow_result split: sum.splits exn.splits)
next
  assume f: "run_flow_response urljoin client self flow_id req = Inl e"
  show "\<exists>msg. fst (execute_flow urljoin client self flow_id req) =
                  Inr \<lparr>success = False, result = JNull, error = Some msg\<rparr>
               \<and> msg \<noteq> [] \<and> sublist (str_exn e) msg"
  proof (cases e)
    case (LangflowServiceError x)
    then have "x \<noteq> []" using f run_flow_error_nonempty by blast
    then show ?thesis using f LangflowServiceError by (simp add: execute_flow_result)
  next
    case (OtherException x)
    have "sublist x (''Unexpected error during flow execution: '' @ x)"
      by (rule suffix_imp_sublist) (rule suffix_appendI, simp)
    then show ?thesis using f OtherException by (simp add: execute_flow_result)
  qed
next
  assume "run_flow_response urljoin client self flow_id req = Inr resp \<and> json resp = Inl m"
  then show "fst (execute_flow urljoin client self flow_id req) =
          Inr \<lparr>success = False, result = JNull,
               error = Some (''Unexpected error during flow execution: '' @ m)\<rparr>"
    by (simp add: execute_flow_result)
qed

text \<open>The run of C1 on a client that always times out.\<close>

theorem execute_flow_failure_as_data_witness:
  "run_flow_response root_join always_timeout test_service ''flow-1'' test_request =
     Inl (LangflowServiceError ''Failed to make request after 4 attempts: Persistent timeout'')
   \<and> (\<exists>msg. fst (execute_flow root_join always_timeout test_service ''flow-1'' test_request) =
                Inr \<lparr>success = False, result = JNull, error = Some msg\<rparr> \<and> msg \<noteq> [])"
  using execute_flow_failure_as_data[where urljoin = root_join and client = always_timeout and self = test_service
      and flow_id = "''flow-1''" and req = test_request
      and e = "LangflowServiceError ''Failed to make request after 4 attempts: Persistent timeout''"]
    always_timeout_run[of test_service "''flow-1''" test_request]
  by blast

text \<open>
  Claim C7, as the code has it. Every response of \<open>execute_flow\<close> has, when
  \<open>success\<close> is true, no error and as \<open>result\<close> exactly the parsed JSON body of the
  response (which is \<open>None\<close> when the body is JSON \<open>null\<close>), and, when \<open>success\<close> is
  false, \<open>result = None\<close> and a non-empty error message.
\<close>

theorem execution_result_invariant:
  "\<exists>r. fst (execute_flow urljoin client self flow_id req) = Inr r
     \<and> (success r \<longrightarrow>
          error r = None
          \<and> (\<exists>resp. run_flow_response urljoin client self flow_id req = Inr resp
                     \<and> json resp = Inr (result r)))
     \<and> (\<not> success r \<longrightarrow> result r = JNull \<and> (\<exists>msg. error r = Some msg \<and> msg \<noteq> []))"
proof (cases "run_flow_response urljoin client self flow_id req")
  case (Inl e)
  show ?thesis
  proof (cases e)
    case (LangflowServiceError x)
    then have "x \<noteq> []" using Inl run_flow_error_nonempty by blast
    then show ?thesis using Inl LangflowServiceError by (simp add: execute_flow_result)
  next
    case (OtherException x)
    then show ?thesis using Inl by (simp add: execute_flow_result)
  qed
next
  case (Inr resp)
  then show ?thesis by (cases "json resp") (simp_all add: execute_flow_result)
qed

text \<open>The run of C7 on a client that returns an execution result.\<close>

theorem execution_result_invariant_witness:
  "\<exists>r. fst (execute_flow root_join (responds execution_body) test_service ''flow-1'' test_request) = Inr r
      \<and> success r \<and> error r = None \<and> result r = execution_body"
  using execution_result_invariant[where urljoin = root_join and client = "responds execution_body"
      and self = test_service and flow_id = "''flow-1''" and req = test_request]
  by (auto simp: execute_flow_result responds_run)

text \<open>
  Claim C7 as stated fails: on a response whose body is JSON \<open>null\<close> the outcome has
  \<open>success = True\<close> and no result, so neither \<open>result\<close> nor \<open>error\<close> is present.
\<close>

theorem null_body_success_without_result:
  "fst (execute_flow root_join (responds JNull) test_service ''flow-1'' test_request) =
     Inr \<lparr>success = True, result = JNull, error = None\<rparr>"
  by (simp add: execute_flow_result responds_run)


subsection \<open>The request of the flow execution\<close>

text \<open>
  The effects of \<open>execute_flow\<close> are those of one call of the retry primitive, with
  method \<open>POST\<close>, the URL that \<open>urljoin\<close> returns for the base URL and
  \<open>/api/v1/run/{flow_id}\<close>, the header \<open>Content-Type: application/json\<close> and a JSON
  body with exactly the keys \<open>input_value\<close>, \<open>output_type\<close>, \<open>input_type\<close> and
  \<open>tweaks\<close>; when \<open>urljoin\<close> raises, nothing is sent.
\<close>

lemma execute_flow_trace:
  "snd (execute_flow urljoin client self flow_id req) =
     (case urljoin (base_url self) (''/api/v1/run/'' @ flow_id) of
        Inl m \<Rightarrow> []
      | Inr url \<Rightarrow> snd (make_request_with_retry client ''POST'' url 3 (run_kwargs req)))"
  unfolding execute_flow_def Let_def run_kwargs_def model_dump_def
  by (simp split: prod.splits sum.splits)

lemma request_defaults:
  "FlowExecutionRequest_init iv None None None =
     \<lparr>input_value = iv, output_type = ''chat'', input_type = ''chat'', tweaks = []\<rparr>"
  by (simp add: FlowExecutionRequest_init_def)

lemma prefixed_service_base: "base_url prefixed_service = ''http://localhost:7860/langflow''"
  by (simp add: prefixed_service_def LangflowService_init_def rstrip_slash_def)

text \<open>
  Claim C9, at an input where the code departs from it. The service is configured with
  the base URL \<open>http://localhost:7860/langflow\<close>, and \<open>urljoin\<close> resolves the absolute
  path \<open>/api/v1/run/flow-1\<close> against it to \<open>http://localhost:7860/api/v1/run/flow-1\<close>
  (an absolute path replaces the path of the base). Then \<open>execute_flow\<close> posts to that
  URL, which is not \<open>{base}/api/v1/run/flow-1\<close>: the path of the base URL is lost.
\<close>

theorem base_path_is_dropped:
  assumes "urljoin ''http://localhost:7860/langflow'' ''/api/v1/run/flow-1'' =
             Inr ''http://localhost:7860/api/v1/run/flow-1''"
  shows "base_url prefixed_service = ''http://localhost:7860/langflow''
       \<and> snd (execute_flow urljoin (responds execution_body) prefixed_service ''flow-1'' test_request) =
           [Request ''POST'' ''http://localhost:7860/api/v1/run/flow-1'' (run_kwargs test_request)]
       \<and> ''http://localhost:7860/api/v1/run/flow-1''
           \<noteq> base_url prefixed_service @ ''/api/v1/run/flow-1''"
proof -
  have t: "snd (execute_flow urljoin (responds execution_body) prefixed_service ''flow-1'' test_request) =
           [Request ''POST'' ''http://localhost:7860/api/v1/run/flow-1'' (run_kwargs test_request)]"
    unfolding execute_flow_trace prefixed_service_base using assms
    by (simp add: retry_first_response responds_def)
  show ?thesis using t by (simp add: prefixed_service_base)
qed

text \<open>The run of C9 with a joiner that returns the resolved URL.\<close>

theorem base_path_is_dropped_witness:
  "snd (execute_flow (\<lambda>base url. Inr ''http://localhost:7860/api/v1/run/flow-1'')
          (responds execution_body) prefixed_service ''flow-1'' test_request) =
     [Request ''POST'' ''http://localhost:7860/api/v1/run/flow-1'' (run_kwargs test_request)]"
  using base_path_is_dropped[where urljoin = "\<lambda>base url. Inr ''http://localhost:7860/api/v1/run/flow-1''"]
  by simp

end
